theory Spec2Isabelle
  imports Main "HOL-Library.Product_Lexorder"
begin

section \<open>Shared vocabulary of \<^verbatim>\<open>urwid/container.py\<close>\<close>

text \<open>
  Exceptions are values. A function that can raise returns \<open>error + 'a\<close>; in every
  function modelled here each \<^verbatim>\<open>raise\<close> comes before the first assignment to the
  object, so \<open>Inl e\<close> also says that the object is as it was before the call.
\<close>

datatype error =
    IndexError | KeyError | ValueError | TypeError | ZeroDivisionError | AttributeError
  | PileError | ColumnsError | OverlayError | FrameError | GridFlowError

text \<open>Python values that occur as options: \<^verbatim>\<open>None\<close>, integers, strings, tuples.\<close>

datatype pyval = PNone | PInt int | PStr string | PTuple "pyval list"

text \<open>
  The value assigned to a \<^verbatim>\<open>contents\<close> slot is unpacked with
  \<^verbatim>\<open>value_w, value_options = value\<close>; \<open>NotAPair\<close> stands for every value on which this
  unpacking raises.
\<close>

datatype 'w entry = NotAPair | Entry 'w pyval

text \<open>
  A child widget, as far as the containers look at it: its identity (Python compares
  widgets with \<^verbatim>\<open>==\<close>, which is identity for widgets), its truth value (\<^verbatim>\<open>if self.header:\<close>;
  a list container with no children is false), \<^verbatim>\<open>selectable()\<close>, \<^verbatim>\<open>rows((maxcol,), focus)\<close>,
  the column count of \<^verbatim>\<open>pack((maxcol,), focus)\<close>, and what the widget without its
  decorations answers as a container: \<open>w_focus_position w = Some k\<close> when
  \<^verbatim>\<open>w.base_widget.focus\<close> is a true value and \<^verbatim>\<open>w.base_widget.focus_position\<close> is \<open>k\<close>,
  \<open>None\<close> for a leaf widget, whose \<^verbatim>\<open>focus\<close> is \<^verbatim>\<open>None\<close>.
\<close>

record widget =
  wid :: nat
  w_truthy :: bool
  w_selectable :: bool
  w_rows :: "int \<Rightarrow> bool \<Rightarrow> int"
  w_pack :: "int \<Rightarrow> bool \<Rightarrow> int"
  w_focus_position :: "int option"

text \<open>A leaf widget that reports \<open>n\<close> rows at every width.\<close>

definition flow_widget :: "nat \<Rightarrow> int \<Rightarrow> widget" where
  "flow_widget i n =
     \<lparr>wid = i, w_truthy = True, w_selectable = False,
      w_rows = (\<lambda>maxcol focus. n), w_pack = (\<lambda>maxcol focus. maxcol),
      w_focus_position = None\<rparr>"

text \<open>
  Python indexing \<^verbatim>\<open>xs[i]\<close>: a negative index counts from the end, an index out of
  range raises \<^verbatim>\<open>IndexError\<close>.
\<close>

definition py_getitem :: "'a list \<Rightarrow> int \<Rightarrow> error + 'a" where
  "py_getitem xs i =
     (if 0 \<le> i \<and> i < int (length xs) then Inr (xs ! nat i)
      else if i < 0 \<and> - int (length xs) \<le> i then Inr (xs ! nat (int (length xs) + i))
      else Inl IndexError)"

section \<open>Frame\<close>

record frame =
  f_header :: "widget option"
  f_body :: "widget option"
  f_footer :: "widget option"
  focus_part :: string

text \<open>\<^verbatim>\<open>Frame.__init__\<close>: the four attributes are stored as given.\<close>

definition Frame :: "widget option \<Rightarrow> widget option \<Rightarrow> widget option \<Rightarrow> string \<Rightarrow> frame" where
  "Frame body header footer part =
     \<lparr>f_header = header, f_body = body, f_footer = footer, focus_part = part\<rparr>"

text \<open>The setters of the properties \<^verbatim>\<open>header\<close>, \<^verbatim>\<open>body\<close> and \<^verbatim>\<open>footer\<close>.\<close>

definition header_set :: "frame \<Rightarrow> widget option \<Rightarrow> frame" where
  "header_set f header =
     (let f1 = f\<lparr>f_header := header\<rparr>
      in if header = None \<and> focus_part f1 = ''header'' then f1\<lparr>focus_part := ''body''\<rparr> else f1)"


definition footer_set :: "frame \<Rightarrow> widget option \<Rightarrow> frame" where
  "footer_set f footer =
     (let f1 = f\<lparr>f_footer := footer\<rparr>
      in if footer = None \<and> focus_part f1 = ''footer'' then f1\<lparr>focus_part := ''body''\<rparr> else f1)"

text \<open>The property \<^verbatim>\<open>focus_position\<close>: getter and setter.\<close>

definition frame_focus_position :: "frame \<Rightarrow> string" where
  "frame_focus_position f = focus_part f"

definition frame_focus_position_set :: "frame \<Rightarrow> string \<Rightarrow> error + frame" where
  "frame_focus_position_set f part =
     (if part \<notin> set [''header'', ''footer'', ''body''] then Inl IndexError
      else if (part = ''header'' \<and> f_header f = None) \<or> (part = ''footer'' \<and> f_footer f = None)
        then Inl IndexError
      else Inr (f\<lparr>focus_part := part\<rparr>))"

text \<open>
  The property \<^verbatim>\<open>focus\<close> looks \<^verbatim>\<open>focus_part\<close> up in a dictionary of the three parts:
  a missing part is the value \<^verbatim>\<open>None\<close>, any other string a \<^verbatim>\<open>KeyError\<close>.
\<close>

definition frame_focus :: "frame \<Rightarrow> error + widget option" where
  "frame_focus f =
     (if focus_part f = ''header'' then Inr (f_header f)
      else if focus_part f = ''footer'' then Inr (f_footer f)
      else if focus_part f = ''body'' then Inr (f_body f)
      else Inl KeyError)"

text \<open>
  \<^verbatim>\<open>if self._header:\<close> is the truth value of an optional widget.
\<close>

definition truth :: "widget option \<Rightarrow> bool" where
  "truth w = (case w of None \<Rightarrow> False | Some x \<Rightarrow> w_truthy x)"

definition contents_keys :: "frame \<Rightarrow> string list" where
  "contents_keys f =
     [''body''] @ (if truth (f_header f) then [''header''] else [])
                @ (if truth (f_footer f) then [''footer''] else [])"

definition frame_contents_getitem :: "frame \<Rightarrow> string \<Rightarrow> error + (widget option \<times> pyval)" where
  "frame_contents_getitem f key =
     (if key = ''body'' then Inr (f_body f, PNone)
      else if key = ''header'' \<and> truth (f_header f) then Inr (f_header f, PNone)
      else if key = ''footer'' \<and> truth (f_footer f) then Inr (f_footer f, PNone)
      else Inl KeyError)"


definition frame_contents_delitem :: "frame \<Rightarrow> string \<Rightarrow> error + frame" where
  "frame_contents_delitem f key =
     (if key \<notin> set [''header'', ''footer''] then Inl KeyError
      else if (key = ''header'' \<and> f_header f = None) \<or> (key = ''footer'' \<and> f_footer f = None)
        then Inl KeyError
      else if key = ''header'' then Inr (header_set f None)
      else Inr (footer_set f None))"

text \<open>
  \<^verbatim>\<open>frame_top_bottom(size, focus)\<close> returns \<^verbatim>\<open>(head rows, foot rows), (orig head, orig foot)\<close>.
\<close>

definition part_rows :: "widget option \<Rightarrow> int \<Rightarrow> bool \<Rightarrow> int" where
  "part_rows w maxcol focus =
     (case w of None \<Rightarrow> 0 | Some x \<Rightarrow> if w_truthy x then w_rows x maxcol focus else 0)"

definition frame_top_bottom :: "frame \<Rightarrow> int \<times> int \<Rightarrow> bool \<Rightarrow> (int \<times> int) \<times> (int \<times> int)" where
  "frame_top_bottom f sz focus =
     (case sz of (maxcol, maxrow) \<Rightarrow>
        let hrows = part_rows (f_header f) maxcol (focus_part f = ''header'' \<and> focus);
            frows = part_rows (f_footer f) maxcol (focus_part f = ''footer'' \<and> focus);
            remaining = maxrow
        in if focus_part f = ''footer'' then
             (if frows \<ge> remaining then ((0, remaining), (hrows, frows))
              else let remaining = remaining - frows
                   in if hrows \<ge> remaining then ((remaining, frows), (hrows, frows))
                      else ((hrows, frows), (hrows, frows)))
           else if focus_part f = ''header'' then
             (if hrows \<ge> maxrow then ((remaining, 0), (hrows, frows))
              else let remaining = remaining - hrows
                   in if frows \<ge> remaining then ((hrows, remaining), (hrows, frows))
                      else ((hrows, frows), (hrows, frows)))
           else if hrows + frows \<ge> remaining then
             (let rless1 = max 0 (remaining - 1)
              in if frows \<ge> remaining - 1 then ((0, rless1), (hrows, frows))
                 else let remaining = remaining - frows;
                          rless1 = max 0 (remaining - 1)
                      in ((rless1, frows), (hrows, frows)))
           else ((hrows, frows), (hrows, frows)))"

text \<open>The rows left to the body, as \<^verbatim>\<open>render\<close> computes them: \<^verbatim>\<open>maxrow - ftrim - htrim\<close>.\<close>

definition body_rows :: "frame \<Rightarrow> int \<times> int \<Rightarrow> bool \<Rightarrow> int" where
  "body_rows f sz focus =
     (case frame_top_bottom f sz focus of ((htrim, ftrim), _) \<Rightarrow> snd sz - ftrim - htrim)"





text \<open>A frame with a three-row header and a two-row footer, the focus on the body.\<close>

definition tall_frame :: frame where
  "tall_frame =
     Frame (Some (flow_widget 0 1)) (Some (flow_widget 1 3)) (Some (flow_widget 2 2)) ''body''"

section \<open>Overlay\<close>

record overlay =
  top_w :: widget
  bottom_w :: widget
  align_type :: pyval
  align_amount :: pyval
  width_type :: pyval
  width_amount :: pyval
  min_width_o :: pyval
  left_o :: pyval
  right_o :: pyval
  valign_type :: pyval
  valign_amount :: pyval
  height_type :: pyval
  height_amount :: pyval
  min_height_o :: pyval
  top_o :: pyval
  bottom_o :: pyval

text \<open>
  The class constant \<^verbatim>\<open>_DEFAULT_BOTTOM_OPTIONS\<close>; the docstring of \<^verbatim>\<open>contents\<close> spells the
  imported names out: \<^verbatim>\<open>('left', None, 'relative', 100, None, 0, 0, 'top', None, 'relative',
  100, None, 0, 0)\<close>.
\<close>

definition DEFAULT_BOTTOM_OPTIONS :: pyval where
  "DEFAULT_BOTTOM_OPTIONS =
     PTuple [PStr ''left'', PNone, PStr ''relative'', PInt 100, PNone, PInt 0, PInt 0,
             PStr ''top'', PNone, PStr ''relative'', PInt 100, PNone, PInt 0, PInt 0]"

text \<open>
  \<^verbatim>\<open>normalize_align(simplify_align(t, a), OverlayError)\<close> and its three siblings come from
  \<^verbatim>\<open>urwid.decoration\<close>, which is not part of the sources at hand: they are parameters.
  Each takes a type and an amount and returns the normalised pair or raises.
\<close>

record decoration =
  norm_align :: "pyval \<Rightarrow> pyval \<Rightarrow> error + pyval \<times> pyval"
  norm_width :: "pyval \<Rightarrow> pyval \<Rightarrow> error + pyval \<times> pyval"
  norm_valign :: "pyval \<Rightarrow> pyval \<Rightarrow> error + pyval \<times> pyval"
  norm_height :: "pyval \<Rightarrow> pyval \<Rightarrow> error + pyval \<times> pyval"

text \<open>
  Unpacking a value into a fixed number of names works on a tuple and on a string (one
  character per name); \<^verbatim>\<open>None\<close> and integers raise \<^verbatim>\<open>TypeError\<close>.
\<close>

fun unpack :: "pyval \<Rightarrow> pyval list option" where
  "unpack (PTuple xs) = Some xs"
| "unpack (PStr s) = Some (map (\<lambda>c. PStr [c]) s)"
| "unpack PNone = None"
| "unpack (PInt n) = None"

definition overlay_focus :: "overlay \<Rightarrow> widget" where
  "overlay_focus ov = top_w ov"

definition overlay_focus_position :: "overlay \<Rightarrow> int" where
  "overlay_focus_position ov = 1"

definition overlay_focus_position_set :: "overlay \<Rightarrow> int \<Rightarrow> error + overlay" where
  "overlay_focus_position_set ov position =
     (if position \<noteq> 1 then Inl IndexError else Inr ov)"

definition overlay_contents_getitem :: "overlay \<Rightarrow> int \<Rightarrow> error + (widget \<times> pyval)" where
  "overlay_contents_getitem ov index =
     (if index = 0 then Inr (bottom_w ov, DEFAULT_BOTTOM_OPTIONS)
      else if index = 1 then
        Inr (top_w ov,
             PTuple [align_type ov, align_amount ov, width_type ov, width_amount ov,
                     min_width_o ov, left_o ov, right_o ov, valign_type ov, valign_amount ov,
                     height_type ov, height_amount ov, min_height_o ov, top_o ov, bottom_o ov])
      else Inl IndexError)"

text \<open>
  \<^verbatim>\<open>_contents__setitem__\<close>. In the branch for index 1 the result of the third normalisation
  is bound to \<^verbatim>\<open>valign_type, valign_amoun\<close>, so the attribute \<^verbatim>\<open>valign_amount\<close> receives the
  amount as it was unpacked; and no assignment in that branch mentions \<^verbatim>\<open>value_w\<close>.
\<close>

definition overlay_contents_setitem ::
  "decoration \<Rightarrow> overlay \<Rightarrow> int \<Rightarrow> widget entry \<Rightarrow> error + overlay" where
  "overlay_contents_setitem D ov index v =
     (case v of
        NotAPair \<Rightarrow> Inl OverlayError
      | Entry value_w value_options \<Rightarrow>
          if index = 0 then
            (if value_options \<noteq> DEFAULT_BOTTOM_OPTIONS then Inl OverlayError
             else Inr (ov\<lparr>bottom_w := value_w\<rparr>))
          else if index = 1 then
            (case unpack value_options of
               None \<Rightarrow> Inl OverlayError
             | Some xs \<Rightarrow>
                 if length xs \<noteq> 14 then Inl OverlayError
                 else
                   (case norm_align D (xs ! 0) (xs ! 1) of Inl e \<Rightarrow> Inl e
                    | Inr (align_type', align_amount') \<Rightarrow>
                   (case norm_width D (xs ! 2) (xs ! 3) of Inl e \<Rightarrow> Inl e
                    | Inr (width_type', width_amount') \<Rightarrow>
                   (case norm_valign D (xs ! 7) (xs ! 8) of Inl e \<Rightarrow> Inl e
                    | Inr (valign_type', valign_amoun) \<Rightarrow>
                   (case norm_height D (xs ! 9) (xs ! 10) of Inl e \<Rightarrow> Inl e
                    | Inr (height_type', height_amount') \<Rightarrow>
                       Inr (ov\<lparr>align_type := align_type', align_amount := align_amount',
                               width_type := width_type', width_amount := width_amount',
                               valign_type := valign_type', valign_amount := xs ! 8,
                               height_type := height_type', height_amount := height_amount',
                               left_o := xs ! 5, right_o := xs ! 6,
                               top_o := xs ! 12, bottom_o := xs ! 13,
                               min_width_o := xs ! 4, min_height_o := xs ! 11\<rparr>))))))
          else Inl IndexError)"

text \<open>
  An \<^verbatim>\<open>urwid.decoration\<close> under which every pair is already normal, and an overlay to
  evaluate on.
\<close>

definition plain_decoration :: decoration where
  "plain_decoration =
     \<lparr>norm_align = (\<lambda>t a. Inr (t, a)), norm_width = (\<lambda>t a. Inr (t, a)),
      norm_valign = (\<lambda>t a. Inr (t, a)), norm_height = (\<lambda>t a. Inr (t, a))\<rparr>"

definition centred_options :: pyval where
  "centred_options =
     PTuple [PStr ''center'', PNone, PStr ''relative'', PInt 50, PNone, PInt 0, PInt 0,
             PStr ''middle'', PNone, PStr ''relative'', PInt 50, PNone, PInt 0, PInt 0]"

definition example_overlay :: overlay where
  "example_overlay =
     \<lparr>top_w = flow_widget 1 1, bottom_w = flow_widget 0 1,
      align_type = PStr ''left'', align_amount = PNone,
      width_type = PStr ''relative'', width_amount = PInt 100,
      min_width_o = PNone, left_o = PInt 0, right_o = PInt 0,
      valign_type = PStr ''top'', valign_amount = PNone,
      height_type = PStr ''relative'', height_amount = PInt 100,
      min_height_o = PNone, top_o = PInt 0, bottom_o = PInt 0\<rparr>"

section \<open>Contents lists with a focus cursor\<close>

text \<open>
  Modelled from the spec: \<^verbatim>\<open>MonitoredFocusList\<close> (module \<^verbatim>\<open>urwid.monitored_list\<close>) is not
  among the sources. The spec (section 3, ContentsCollection and FocusState) describes an
  ordered sequence of entries with an associated focus cursor, the cursor being an index
  into the sequence.
\<close>

record 'a mfl =
  items :: "'a list"
  mfl_focus :: int

text \<open>
  Modelled from the spec: the constructor \<^verbatim>\<open>MonitoredFocusList()\<close> of the absent module; an
  empty sequence.
\<close>

definition mfl_empty :: "'a mfl" where
  "mfl_empty = \<lparr>items = [], mfl_focus = 0\<rparr>"

text \<open>
  Modelled from the spec: \<^verbatim>\<open>append\<close> of the absent \<^verbatim>\<open>MonitoredFocusList\<close>. Section 8 of the
  spec: after appending one child to an empty container the focus position is 0. The
  cursor of a sequence that already has entries stays where it is.
\<close>

definition mfl_append :: "'a mfl \<Rightarrow> 'a \<Rightarrow> 'a mfl" where
  "mfl_append m x =
     \<lparr>items = items m @ [x], mfl_focus = (if items m = [] then 0 else mfl_focus m)\<rparr>"

text \<open>
  Modelled from the spec: assignment to \<^verbatim>\<open>focus\<close> of the absent \<^verbatim>\<open>MonitoredFocusList\<close>; the
  containers check the range before they assign.
\<close>

definition mfl_set_focus :: "'a mfl \<Rightarrow> int \<Rightarrow> 'a mfl" where
  "mfl_set_focus m i = m\<lparr>mfl_focus := i\<rparr>"

text \<open>
  Modelled from the spec: \<^verbatim>\<open>del contents[:1]\<close> on the absent \<^verbatim>\<open>MonitoredFocusList\<close>. The
  cursor keeps pointing at the entry it pointed at (spec section 4.6: the row that gained
  the focus index is the focused row of the generated widget), so it moves down by one
  with the entries; a cursor on the removed entry stays at 0.
\<close>

definition mfl_del_first :: "'a mfl \<Rightarrow> 'a mfl" where
  "mfl_del_first m = \<lparr>items = drop 1 (items m), mfl_focus = max 0 (mfl_focus m - 1)\<rparr>"

section \<open>Rounding\<close>

text \<open>
  Both solvers compute \<^verbatim>\<open>int(float(remaining) * weight / wtotal + 0.5)\<close>. The value inside
  \<^verbatim>\<open>int\<close> is the fraction \<open>(2 * remaining * weight + wtotal) / (2 * wtotal)\<close>, and \<^verbatim>\<open>int\<close>
  truncates toward zero. The model computes with that fraction exactly: extents and
  weights are integers, and for integers of the size of a terminal the double-precision
  operations give the same integer as the exact fraction. A zero \<^verbatim>\<open>wtotal\<close> raises
  \<^verbatim>\<open>ZeroDivisionError\<close> in the source; the callers below test for it.
\<close>

definition trunc_div :: "int \<Rightarrow> int \<Rightarrow> int" where
  "trunc_div a b = (if (a < 0) = (b < 0) then \<bar>a\<bar> div \<bar>b\<bar> else - (\<bar>a\<bar> div \<bar>b\<bar>))"

definition round_half_up :: "int \<Rightarrow> int \<Rightarrow> int \<Rightarrow> int" where
  "round_half_up remaining weight wtotal = trunc_div (2 * remaining * weight + wtotal) (2 * wtotal)"

section \<open>Pile\<close>

text \<open>
  An options tuple \<^verbatim>\<open>(t, n)\<close> whose type is one of \<^verbatim>\<open>'pack'\<close>, \<^verbatim>\<open>'given'\<close>, \<^verbatim>\<open>'weight'\<close>; the
  validation callbacks of Pile and Columns admit no other type.
\<close>

datatype opt = Pack | Given int | Weight int

record pile =
  p_contents :: "(widget \<times> opt) mfl"

definition Pile_empty :: pile where
  "Pile_empty = \<lparr>p_contents = mfl_empty\<rparr>"

definition pile_focus_position :: "pile \<Rightarrow> error + int" where
  "pile_focus_position p =
     (if items (p_contents p) = [] then Inl IndexError else Inr (mfl_focus (p_contents p)))"

definition pile_focus_position_set :: "pile \<Rightarrow> int \<Rightarrow> error + pile" where
  "pile_focus_position_set p position =
     (if position < 0 \<or> position \<ge> int (length (items (p_contents p))) then Inl IndexError
      else Inr (p\<lparr>p_contents := mfl_set_focus (p_contents p) position\<rparr>))"

definition pile_append :: "pile \<Rightarrow> widget \<times> opt \<Rightarrow> pile" where
  "pile_append p item = p\<lparr>p_contents := mfl_append (p_contents p) item\<rparr>"

definition pile_focus :: "pile \<Rightarrow> error + widget option" where
  "pile_focus p =
     (if items (p_contents p) = [] then Inr None
      else case pile_focus_position p of
             Inl e \<Rightarrow> Inl e
           | Inr i \<Rightarrow> (case py_getitem (items (p_contents p)) i of
                         Inl e \<Rightarrow> Inl e
                       | Inr item \<Rightarrow> Inr (Some (fst item))))"

text \<open>\<^verbatim>\<open>focus and self.focus == w\<close>; the right operand is evaluated only when \<^verbatim>\<open>focus\<close> holds.\<close>

definition item_focus :: "pile \<Rightarrow> bool \<Rightarrow> widget \<Rightarrow> error + bool" where
  "item_focus p focus w =
     (if \<not> focus then Inr False
      else case pile_focus p of
             Inl e \<Rightarrow> Inl e
           | Inr None \<Rightarrow> Inr False
           | Inr (Some fw) \<Rightarrow> Inr (wid fw = wid w))"

text \<open>\<^verbatim>\<open>get_item_rows\<close>, the pile as a flow widget: \<^verbatim>\<open>size\<close> is \<^verbatim>\<open>(maxcol,)\<close>.\<close>

fun rows_flow :: "pile \<Rightarrow> int \<Rightarrow> bool \<Rightarrow> (widget \<times> opt) list \<Rightarrow> error + int list" where
  "rows_flow p maxcol focus [] = Inr []"
| "rows_flow p maxcol focus ((w, Given height) # rest) =
     (case rows_flow p maxcol focus rest of Inl e \<Rightarrow> Inl e | Inr l \<Rightarrow> Inr (height # l))"
| "rows_flow p maxcol focus ((w, f) # rest) =
     (case item_focus p focus w of
        Inl e \<Rightarrow> Inl e
      | Inr fw \<Rightarrow> (case rows_flow p maxcol focus rest of
                     Inl e \<Rightarrow> Inl e
                   | Inr l \<Rightarrow> Inr (w_rows w maxcol fw # l)))"

text \<open>
  The pile as a box widget, first pass: fixed heights are entered and subtracted from
  \<^verbatim>\<open>remaining\<close>, weighted entries are marked with \<^verbatim>\<open>None\<close> and their weights summed, and a
  weight of zero is entered as height 0.
\<close>

fun rows_box1 ::
  "pile \<Rightarrow> int \<Rightarrow> bool \<Rightarrow> (widget \<times> opt) list \<Rightarrow> int option list \<Rightarrow> int \<Rightarrow> int
     \<Rightarrow> error + (int option list \<times> int \<times> int)" where
  "rows_box1 p maxcol focus [] l remaining wtotal = Inr (l, remaining, wtotal)"
| "rows_box1 p maxcol focus ((w, Pack) # rest) l remaining wtotal =
     (case item_focus p focus w of
        Inl e \<Rightarrow> Inl e
      | Inr fw \<Rightarrow> (let rows = w_rows w maxcol fw
                   in rows_box1 p maxcol focus rest (l @ [Some rows]) (remaining - rows) wtotal))"
| "rows_box1 p maxcol focus ((w, Given height) # rest) l remaining wtotal =
     rows_box1 p maxcol focus rest (l @ [Some height]) (remaining - height) wtotal"
| "rows_box1 p maxcol focus ((w, Weight height) # rest) l remaining wtotal =
     (if height \<noteq> 0 then rows_box1 p maxcol focus rest (l @ [None]) remaining (wtotal + height)
      else rows_box1 p maxcol focus rest (l @ [Some 0]) remaining wtotal)"

text \<open>
  Second pass, over \<^verbatim>\<open>enumerate(self.contents)\<close> with \<^verbatim>\<open>li = l[i]\<close>: each entry marked
  \<^verbatim>\<open>None\<close> receives its rounded share of what remains, and both \<^verbatim>\<open>remaining\<close> and \<^verbatim>\<open>wtotal\<close>
  are reduced before the next entry. Only weighted entries are marked in the first pass.
\<close>

fun rows_box2 :: "(int option \<times> widget \<times> opt) list \<Rightarrow> int \<Rightarrow> int \<Rightarrow> error + int list" where
  "rows_box2 [] remaining wtotal = Inr []"
| "rows_box2 ((Some li, w, f) # rest) remaining wtotal =
     (case rows_box2 rest remaining wtotal of Inl e \<Rightarrow> Inl e | Inr l \<Rightarrow> Inr (li # l))"
| "rows_box2 ((None, w, Weight height) # rest) remaining wtotal =
     (if wtotal = 0 then Inl ZeroDivisionError
      else let rows = round_half_up remaining height wtotal
           in case rows_box2 rest (remaining - rows) (wtotal - height) of
                Inl e \<Rightarrow> Inl e
              | Inr l \<Rightarrow> Inr (rows # l))"
| "rows_box2 ((None, w, Given height) # rest) remaining wtotal =
     (if wtotal = 0 then Inl ZeroDivisionError
      else let rows = round_half_up remaining height wtotal
           in case rows_box2 rest (remaining - rows) (wtotal - height) of
                Inl e \<Rightarrow> Inl e
              | Inr l \<Rightarrow> Inr (rows # l))"
| "rows_box2 ((None, w, Pack) # rest) remaining wtotal = Inl TypeError"

text \<open>
  \<^verbatim>\<open>get_item_rows(size, focus)\<close>; \<^verbatim>\<open>size\<close> is \<^verbatim>\<open>(maxcol,)\<close> or \<^verbatim>\<open>(maxcol, maxrow)\<close>.
\<close>

definition get_item_rows :: "pile \<Rightarrow> int \<times> int option \<Rightarrow> bool \<Rightarrow> error + int list" where
  "get_item_rows p sz focus =
     (case sz of
        (maxcol, None) \<Rightarrow> rows_flow p maxcol focus (items (p_contents p))
      | (maxcol, Some maxrow) \<Rightarrow>
          (case rows_box1 p maxcol focus (items (p_contents p)) [] maxrow 0 of
             Inl e \<Rightarrow> Inl e
           | Inr (l, remaining, wtotal) \<Rightarrow>
               if wtotal = 0 then Inl PileError
               else rows_box2 (zip l (items (p_contents p)))
                      (if remaining < 0 then 0 else remaining) wtotal))"

text \<open>A box-sized pile whose entries carry the given options, in order.\<close>

definition pile_of :: "opt list \<Rightarrow> pile" where
  "pile_of os =
     \<lparr>p_contents = \<lparr>items = map (\<lambda>(i, f). (flow_widget i 1, f)) (enumerate 0 os),
                    mfl_focus = 0\<rparr>\<rparr>"

section \<open>Columns\<close>

text \<open>
  An options tuple of Columns is \<^verbatim>\<open>(t, n, b)\<close>: the width type and amount and the box flag.
  \<^verbatim>\<open>_cache_maxcol\<close> is \<^verbatim>\<open>None\<close> after \<^verbatim>\<open>_invalidate()\<close>.
\<close>

record columns =
  c_contents :: "(widget \<times> opt \<times> bool) mfl"
  dividechars :: int
  min_width :: int
  cache_maxcol :: "int option"
  cache_column_widths :: "int list"

definition columns_focus_position :: "columns \<Rightarrow> error + int" where
  "columns_focus_position c =
     (if map fst (items (c_contents c)) = [] then Inl IndexError
      else Inr (mfl_focus (c_contents c)))"

definition columns_focus_position_set :: "columns \<Rightarrow> int \<Rightarrow> error + columns" where
  "columns_focus_position_set c position =
     (if position < 0 \<or> position \<ge> int (length (items (c_contents c))) then Inl IndexError
      else Inr (c\<lparr>c_contents := mfl_set_focus (c_contents c) position, cache_maxcol := None\<rparr>))"

text \<open>
  \<^verbatim>\<open>contents.append(item)\<close>; the modified callback \<^verbatim>\<open>_contents_modified\<close> ends in
  \<^verbatim>\<open>_invalidate()\<close>, which clears \<^verbatim>\<open>_cache_maxcol\<close>.
\<close>

definition columns_append :: "columns \<Rightarrow> widget \<times> opt \<times> bool \<Rightarrow> columns" where
  "columns_append c item = c\<lparr>c_contents := mfl_append (c_contents c) item, cache_maxcol := None\<rparr>"

text \<open>
  The width a column takes before the weighted columns grow: the given width, the packed
  width, or \<^verbatim>\<open>min_width\<close> for a weighted column. Inside the loop the contents are not empty,
  so \<^verbatim>\<open>self.focus_position\<close> is the cursor of the contents.
\<close>

definition static_width :: "columns \<Rightarrow> int \<Rightarrow> bool \<Rightarrow> nat \<Rightarrow> widget \<times> opt \<times> bool \<Rightarrow> int" where
  "static_width c maxcol focus i item =
     (case item of (w, t, b) \<Rightarrow>
        (case t of
           Given width \<Rightarrow> width
         | Pack \<Rightarrow> w_pack w maxcol (focus \<and> int i = mfl_focus (c_contents c))
         | Weight width \<Rightarrow> min_width c))"

text \<open>
  First loop of \<^verbatim>\<open>column_widths\<close>: columns are taken from the left while they fit; a column
  that does not fit ends the loop only when it lies after the focus column.
\<close>

fun cw_scan ::
  "columns \<Rightarrow> int \<Rightarrow> bool \<Rightarrow> nat \<Rightarrow> (widget \<times> opt \<times> bool) list \<Rightarrow> int list \<Rightarrow> (int \<times> nat) list \<Rightarrow> int
     \<Rightarrow> int list \<times> (int \<times> nat) list \<times> int" where
  "cw_scan c maxcol focus i [] widths weighted shared = (widths, weighted, shared)"
| "cw_scan c maxcol focus i (item # rest) widths weighted shared =
     (let static_w = static_width c maxcol focus i item
      in if shared < static_w + dividechars c \<and> int i > mfl_focus (c_contents c)
         then (widths, weighted, shared)
         else cw_scan c maxcol focus (Suc i) rest (widths @ [static_w])
                (case fst (snd item) of
                   Weight width \<Rightarrow> weighted @ [(width, i)]
                 | Given width \<Rightarrow> weighted
                 | Pack \<Rightarrow> weighted)
                (shared - (static_w + dividechars c)))"

text \<open>
  Second loop, \<^verbatim>\<open>drop columns on the left until we fit\<close>: over \<^verbatim>\<open>enumerate(widths)\<close>, stop
  at the first index where \<^verbatim>\<open>shared >= 0\<close>; otherwise give the width and its divider
  back to \<^verbatim>\<open>shared\<close>, set the width to 0 and, when the column heads \<^verbatim>\<open>weighted\<close>, delete
  it there. The function returns the list with its widths zeroed in place.
\<close>

fun drop_left ::
  "int \<Rightarrow> nat \<Rightarrow> int list \<Rightarrow> (int \<times> nat) list \<Rightarrow> int \<Rightarrow> int list \<times> (int \<times> nat) list \<times> int" where
  "drop_left d i [] weighted shared = ([], weighted, shared)"
| "drop_left d i (w # ws) weighted shared =
     (if shared \<ge> 0 then (w # ws, weighted, shared)
      else case drop_left d (Suc i) ws
                  (if weighted \<noteq> [] \<and> snd (hd weighted) = i then tl weighted else weighted)
                  (shared + (w + d)) of
             (ws', weighted', shared') \<Rightarrow> (0 # ws', weighted', shared'))"

text \<open>
  Third loop: the sorted weighted columns receive, one after the other, the rounded share
  of \<^verbatim>\<open>grow\<close> that their weight has in \<^verbatim>\<open>wtotal\<close>, but at least \<^verbatim>\<open>min_width\<close>.
\<close>

fun distribute :: "int \<Rightarrow> (int \<times> nat) list \<Rightarrow> int list \<Rightarrow> int \<Rightarrow> int \<Rightarrow> error + int list" where
  "distribute m [] widths grow wtotal = Inr widths"
| "distribute m ((weight, i) # rest) widths grow wtotal =
     (if wtotal = 0 then Inl ZeroDivisionError
      else let width = max m (round_half_up grow weight wtotal)
           in distribute m rest (widths[i := width]) (grow - width) (wtotal - weight))"

definition calc_column_widths :: "columns \<Rightarrow> int \<Rightarrow> bool \<Rightarrow> error + int list" where
  "calc_column_widths c maxcol focus =
     (case cw_scan c maxcol focus 0 (items (c_contents c)) [] [] (maxcol + dividechars c) of
        (widths1, weighted1, shared1) \<Rightarrow>
          (case drop_left (dividechars c) 0 widths1 weighted1 shared1 of
             (widths, weighted, shared) \<Rightarrow>
               if shared \<noteq> 0 then
                 distribute (min_width c) (sort weighted) widths
                   (shared + int (length weighted) * min_width c)
                   (sum_list (map fst weighted))
               else Inr widths))"

definition has_pack :: "columns \<Rightarrow> bool" where
  "has_pack c = (\<exists>item \<in> set (items (c_contents c)). fst (snd item) = Pack)"

text \<open>\<^verbatim>\<open>column_widths(size, focus)\<close>: the widths and the object with its cache filled.\<close>

definition column_widths :: "columns \<Rightarrow> int \<times> int option \<Rightarrow> bool \<Rightarrow> error + (int list \<times> columns)" where
  "column_widths c sz focus =
     (let maxcol = fst sz
      in if Some maxcol = cache_maxcol c \<and> \<not> has_pack c then Inr (cache_column_widths c, c)
         else case calc_column_widths c maxcol focus of
                Inl e \<Rightarrow> Inl e
              | Inr widths \<Rightarrow>
                  Inr (widths, c\<lparr>cache_maxcol := Some maxcol, cache_column_widths := widths\<rparr>))"

text \<open>
  Columns with the given options in order, the focus on column \<open>fp\<close> and an empty cache.
\<close>

definition columns_of :: "opt list \<Rightarrow> int \<Rightarrow> int \<Rightarrow> int \<Rightarrow> columns" where
  "columns_of os d m fp =
     \<lparr>c_contents = \<lparr>items = map (\<lambda>(i, f). (flow_widget i 1, f, False)) (enumerate 0 os),
                    mfl_focus = fp\<rparr>,
      dividechars = d, min_width = m, cache_maxcol = None, cache_column_widths = []\<rparr>"

section \<open>GridFlow\<close>

text \<open>
  The display widget that \<^verbatim>\<open>generate_display_widget\<close> builds: a \<^verbatim>\<open>Divider\<close> for an empty
  GridFlow, otherwise a \<^verbatim>\<open>Pile\<close> whose entries are the one \<^verbatim>\<open>Divider\<close> object and, for every
  row, a \<^verbatim>\<open>Padding\<close> around a \<^verbatim>\<open>Columns\<close>. A row records \<^verbatim>\<open>pad.first_position\<close>, the
  contents of its \<^verbatim>\<open>Columns\<close> (every cell with its given width), \<^verbatim>\<open>pad.width\<close>, and the cell
  that replaced the \<^verbatim>\<open>Columns\<close> as \<^verbatim>\<open>pad.original_widget\<close>, if one did. The integer of the
  display is \<^verbatim>\<open>divider.top\<close>.
\<close>

record drow =
  first_position :: int
  r_contents :: "(widget \<times> int) mfl"
  pad_width :: int
  original_widget :: "widget option"

datatype ditem = DividerItem | PadItem drow

datatype display = DividerW int | PileW int "ditem mfl"

text \<open>
  An entry of a GridFlow is a widget with the options \<^verbatim>\<open>('given', n)\<close>; the validation
  callback admits no other width type, so the entry keeps \<open>n\<close>.
\<close>

record gridflow =
  g_contents :: "(widget \<times> int) mfl"
  cell_width :: int
  h_sep :: int
  v_sep :: int
  g_cache_maxcol :: "int option"
  g_w :: display

definition gridflow_focus_position :: "gridflow \<Rightarrow> error + int" where
  "gridflow_focus_position gf =
     (if items (g_contents gf) = [] then Inl IndexError else Inr (mfl_focus (g_contents gf)))"

text \<open>
  The setter. The constructor registers \<^verbatim>\<open>lambda f: self._invalidate()\<close> as the callback for
  a changed focus, and \<^verbatim>\<open>_invalidate\<close> clears \<^verbatim>\<open>_cache_maxcol\<close>.
\<close>

definition gridflow_focus_position_set :: "gridflow \<Rightarrow> int \<Rightarrow> error + gridflow" where
  "gridflow_focus_position_set gf position =
     (if position < 0 \<or> position \<ge> int (length (items (g_contents gf))) then Inl IndexError
      else Inr (gf\<lparr>g_contents := mfl_set_focus (g_contents gf) position,
                   g_cache_maxcol := (if position = mfl_focus (g_contents gf)
                                      then g_cache_maxcol gf else None)\<rparr>))"

definition gridflow_append :: "gridflow \<Rightarrow> widget \<times> int \<Rightarrow> gridflow" where
  "gridflow_append gf item =
     gf\<lparr>g_contents := mfl_append (g_contents gf) item, g_cache_maxcol := None\<rparr>"

text \<open>
  The state of the loop in \<^verbatim>\<open>generate_display_widget\<close>. The variables \<^verbatim>\<open>c\<close> and \<^verbatim>\<open>pad\<close> name
  the row that was appended to \<^verbatim>\<open>p.contents\<close> last, and nothing is appended after it until
  the next row starts: \<open>cur\<close> is that open row (\<open>None\<close> while \<^verbatim>\<open>c is None\<close>) and \<open>closed\<close>
  holds the entries of \<^verbatim>\<open>p.contents\<close> before it, so that \<^verbatim>\<open>p.contents\<close> is \<open>closed\<close> followed
  by the open row.
\<close>

record gen =
  closed :: "ditem list"
  cur :: "drow option"
  p_focus :: int
  column_focused :: bool
  used_space :: int

definition gen_init :: gen where
  "gen_init = \<lparr>closed = [], cur = None, p_focus = 0, column_focused = False, used_space = 0\<rparr>"

definition p_contents_of :: "gen \<Rightarrow> ditem list" where
  "p_contents_of s = closed s @ (case cur s of None \<Rightarrow> [] | Some r \<Rightarrow> [PadItem r])"

definition fresh_row :: "nat \<Rightarrow> drow" where
  "fresh_row i =
     \<lparr>first_position = int i, r_contents = mfl_empty, pad_width = 0, original_widget = None\<rparr>"

text \<open>\<^verbatim>\<open>sum(x[1][1] for x in c.contents) + self.h_sep * len(c.contents)\<close>\<close>

definition used_of :: "int \<Rightarrow> (widget \<times> int) list \<Rightarrow> int" where
  "used_of hs cs = sum_list (map snd cs) + hs * int (length cs)"

text \<open>
  The test that starts a new row, and the body of the loop for cell \<open>i\<close>. Appending to
  the empty \<^verbatim>\<open>p.contents\<close> puts its cursor at 0; the fresh \<^verbatim>\<open>Padding\<close> has no width of its
  own yet, and \<^verbatim>\<open>pad.width\<close> is assigned at the end of the same iteration.
\<close>

definition starts_row :: "int \<Rightarrow> gen \<Rightarrow> int \<Rightarrow> bool" where
  "starts_row maxcol s amount = (cur s = None \<or> maxcol - used_space s < amount)"

definition gen_step :: "gridflow \<Rightarrow> int \<Rightarrow> gen \<Rightarrow> nat \<times> widget \<times> int \<Rightarrow> gen" where
  "gen_step gf maxcol s cell =
     (case cell of (i, w, amount) \<Rightarrow>
        let new_row = starts_row maxcol s amount;
            closed1 = (if new_row
                       then p_contents_of s @ (if v_sep gf \<noteq> 0 then [DividerItem] else [])
                       else closed s);
            p_focus1 = (if new_row \<and> p_contents_of s = [] then 0 else p_focus s);
            column_focused1 = (if new_row then False else column_focused s);
            r0 = (case cur s of
                    None \<Rightarrow> fresh_row i
                  | Some r \<Rightarrow> if new_row then fresh_row i else r);
            cs = mfl_append (r_contents r0) (w, amount);
            is_focus = (int i = mfl_focus (g_contents gf));
            take_focus = (is_focus \<or> (\<not> column_focused1 \<and> w_selectable w));
            cs1 = (if take_focus then mfl_set_focus cs (int (length (items cs)) - 1) else cs);
            used = used_of (h_sep gf) (items cs1)
        in \<lparr>closed = closed1,
            cur = Some (r0\<lparr>r_contents := cs1,
                           pad_width := used - h_sep gf,
                           original_widget := (if amount > maxcol then Some w
                                               else original_widget r0)\<rparr>),
            p_focus = (if is_focus then int (length closed1) else p_focus1),
            column_focused = (column_focused1 \<or> take_focus),
            used_space = used\<rparr>)"

definition gen_loop :: "gridflow \<Rightarrow> int \<Rightarrow> (widget \<times> int) list \<Rightarrow> gen" where
  "gen_loop gf maxcol cells = foldl (gen_step gf maxcol) gen_init (enumerate 0 cells)"

text \<open>\<^verbatim>\<open>generate_display_widget(size)\<close> with \<^verbatim>\<open>size = (maxcol,)\<close>.\<close>

definition generate_display_widget :: "gridflow \<Rightarrow> int \<Rightarrow> display" where
  "generate_display_widget gf maxcol =
     (if items (g_contents gf) = [] then DividerW 0
      else let dtop = (if v_sep gf > 1 then v_sep gf - 1 else 0);
               s = gen_loop gf maxcol (items (g_contents gf));
               pc = \<lparr>items = p_contents_of s, mfl_focus = p_focus s\<rparr>
           in PileW dtop (if v_sep gf \<noteq> 0 then mfl_del_first pc else pc))"

definition get_display_widget :: "gridflow \<Rightarrow> int \<Rightarrow> gridflow" where
  "get_display_widget gf maxcol =
     (if g_cache_maxcol gf = Some maxcol then gf
      else gf\<lparr>g_cache_maxcol := Some maxcol, g_w := generate_display_widget gf maxcol\<rparr>)"

text \<open>The rows of a display widget, top to bottom, and what lies between them.\<close>

fun rows_of_items :: "ditem list \<Rightarrow> drow list" where
  "rows_of_items [] = []"
| "rows_of_items (DividerItem # xs) = rows_of_items xs"
| "rows_of_items (PadItem r # xs) = r # rows_of_items xs"

definition display_items :: "display \<Rightarrow> ditem list" where
  "display_items d = (case d of DividerW t \<Rightarrow> [] | PileW t pc \<Rightarrow> items pc)"

definition display_rows :: "display \<Rightarrow> drow list" where
  "display_rows d = rows_of_items (display_items d)"

definition row_cells :: "drow \<Rightarrow> (widget \<times> int) list" where
  "row_cells r = items (r_contents r)"

text \<open>
  \<^verbatim>\<open>_set_focus_from_display_widget\<close>. \<^verbatim>\<open>self._w.focus\<close> is \<^verbatim>\<open>None\<close> for the \<^verbatim>\<open>Divider\<close> and for
  an empty \<^verbatim>\<open>Pile\<close>, otherwise the entry under the cursor of the pile; a \<^verbatim>\<open>Divider\<close> entry
  has no \<^verbatim>\<open>first_position\<close>. \<^verbatim>\<open>pile_focus.base_widget\<close> is the \<^verbatim>\<open>Columns\<close> of the row, or the
  cell without its decorations when that cell replaced the \<^verbatim>\<open>Columns\<close>.
\<close>

definition col_focus_position :: "drow \<Rightarrow> error + int" where
  "col_focus_position r =
     (case original_widget r of
        Some w \<Rightarrow> (case w_focus_position w of Some k \<Rightarrow> Inr k | None \<Rightarrow> Inr 0)
      | None \<Rightarrow>
          if items (r_contents r) = [] then Inr 0
          else (case py_getitem (items (r_contents r)) (mfl_focus (r_contents r)) of
                  Inl e \<Rightarrow> Inl e
                | Inr cell \<Rightarrow> if w_truthy (fst cell) then Inr (mfl_focus (r_contents r))
                               else Inr 0))"

definition set_focus_from_display_widget :: "gridflow \<Rightarrow> error + gridflow" where
  "set_focus_from_display_widget gf =
     (case g_w gf of
        DividerW t \<Rightarrow> Inr gf
      | PileW t pc \<Rightarrow>
          if items pc = [] then Inr gf
          else (case py_getitem (items pc) (mfl_focus pc) of
                  Inl e \<Rightarrow> Inl e
                | Inr DividerItem \<Rightarrow> Inl AttributeError
                | Inr (PadItem r) \<Rightarrow>
                    (case col_focus_position r of
                       Inl e \<Rightarrow> Inl e
                     | Inr k \<Rightarrow> gridflow_focus_position_set gf (first_position r + k))))"

text \<open>
  \<^verbatim>\<open>mouse_event\<close>. \<^verbatim>\<open>super().mouse_event\<close> is the method of \<^verbatim>\<open>WidgetWrap\<close>, imported from
  \<^verbatim>\<open>urwid.widget\<close> and not among the sources: it is the parameter \<open>wrap\<close>, which hands the
  event to the display widget and answers with what that widget returned and with the
  GridFlow as the call left it, or raises.
\<close>

record mouse =
  m_event :: string
  m_button :: int
  m_col :: int
  m_row :: int
  m_focus :: bool

type_synonym wrap_mouse_event = "gridflow \<Rightarrow> int \<Rightarrow> mouse \<Rightarrow> error + (bool \<times> gridflow)"

definition mouse_event :: "wrap_mouse_event \<Rightarrow> gridflow \<Rightarrow> int \<Rightarrow> mouse \<Rightarrow> error + (bool \<times> gridflow)" where
  "mouse_event wrap gf maxcol ev =
     (let gf1 = get_display_widget gf maxcol
      in case wrap gf1 maxcol ev of
           Inl e \<Rightarrow> Inl e
         | Inr (handled, gf2) \<Rightarrow>
             (case set_focus_from_display_widget gf2 of
                Inl e \<Rightarrow> Inl e
              | Inr gf3 \<Rightarrow> Inr (True, gf3)))"

text \<open>
  \<^verbatim>\<open>GridFlow.__init__\<close>: every cell gets the options \<^verbatim>\<open>('given', cell_width)\<close>, and the display
  widget is generated once for the width \<^verbatim>\<open>(h_sep + cell_width) * len(cells)\<close>.
\<close>

definition GridFlow :: "widget list \<Rightarrow> int \<Rightarrow> int \<Rightarrow> int \<Rightarrow> gridflow" where
  "GridFlow cells cw hs vs =
     get_display_widget
       \<lparr>g_contents = \<lparr>items = map (\<lambda>w. (w, cw)) cells, mfl_focus = 0\<rparr>,
        cell_width = cw, h_sep = hs, v_sep = vs, g_cache_maxcol = None, g_w = DividerW 0\<rparr>
       ((hs + cw) * int (length cells))"

text \<open>A display widget that handles no event and changes nothing.\<close>

definition ignoring_wrap :: wrap_mouse_event where
  "ignoring_wrap gf maxcol ev = Inr (False, gf)"

text \<open>
  A cell that is itself a container with its second child in focus (a \<^verbatim>\<open>Pile\<close> of two
  text widgets with \<^verbatim>\<open>focus_position\<close> 1), a GridFlow of this one cell with
  \<^verbatim>\<open>cell_width = 10\<close>, the same GridFlow with a leaf cell, and a press of button 1 below
  every row of the display.
\<close>

definition container_cell :: widget where
  "container_cell = (flow_widget 0 2)\<lparr>w_focus_position := Some 1\<rparr>"

definition container_grid :: gridflow where
  "container_grid = GridFlow [container_cell] 10 0 0"

definition leaf_grid :: gridflow where
  "leaf_grid = GridFlow [flow_widget 0 2] 10 0 0"

definition far_click :: mouse where
  "far_click = \<lparr>m_event = ''mouse press'', m_button = 1, m_col = 0, m_row = 1000,
                 m_focus = True\<rparr>"

section \<open>Vocabulary for the solver properties\<close>


















section \<open>Vocabulary for the rows of a GridFlow\<close>

text \<open>
  A cell stays in the row of the cells before it when the test that starts a new row
  fails for it, the used space being that of the cells before it in the row; a row
  breaks before the first cell of the next row when the test holds for that cell against
  the whole row. A list of rows is wrapped when no row is empty, every cell after the
  first of a row stays in it, and every row breaks before the next.
\<close>

definition stays :: "int \<Rightarrow> int \<Rightarrow> (widget \<times> int) list \<Rightarrow> bool" where
  "stays maxcol hs cs =
     (\<forall>t \<in> {1 ..< length cs}. \<not> maxcol - used_of hs (take t cs) < snd (cs ! t))"

definition breaks :: "int \<Rightarrow> int \<Rightarrow> (widget \<times> int) list \<Rightarrow> (widget \<times> int) list \<Rightarrow> bool" where
  "breaks maxcol hs r r' = (maxcol - used_of hs r < snd (hd r'))"

definition wrapped :: "int \<Rightarrow> int \<Rightarrow> (widget \<times> int) list list \<Rightarrow> bool" where
  "wrapped maxcol hs rows =
     ((\<forall>r \<in> set rows. r \<noteq> [] \<and> stays maxcol hs r) \<and> successively (breaks maxcol hs) rows)"

text \<open>
  The entries of the pile before its first divider is deleted: every row preceded by the
  divider when \<^verbatim>\<open>v_sep\<close> is not zero. \<open>positions_ok\<close>: the \<^verbatim>\<open>first_position\<close> of every row is the
  number of cells in the rows before it.
\<close>

definition divider_before :: "int \<Rightarrow> ditem list" where
  "divider_before vs = (if vs \<noteq> 0 then [DividerItem] else [])"

definition layout :: "int \<Rightarrow> drow list \<Rightarrow> ditem list" where
  "layout vs rows = concat (map (\<lambda>r. divider_before vs @ [PadItem r]) rows)"

definition positions_ok :: "drow list \<Rightarrow> bool" where
  "positions_ok rows =
     (\<forall>k < length rows.
        first_position (rows ! k) = int (length (concat (map row_cells (take k rows)))))"

definition display_top :: "display \<Rightarrow> int" where
  "display_top d = (case d of DividerW t \<Rightarrow> t | PileW t pc \<Rightarrow> t)"

text \<open>
  Modelled from the spec: the class \<^verbatim>\<open>Divider\<close> (module \<^verbatim>\<open>urwid.widget\<close>) is not among the
  sources. By the spec (section 4.6 and the GridFlow scenario of section 8) rows are
  separated by \<^verbatim>\<open>v_sep\<close> blank rows, and the code sets \<^verbatim>\<open>divider.top = v_sep - 1\<close>: a divider
  is one blank row below \<^verbatim>\<open>top\<close> blank rows.
\<close>

definition divider_rows :: "int \<Rightarrow> int" where
  "divider_rows t = t + 1"

text \<open>
  The rows that the loop of \<^verbatim>\<open>generate_display_widget\<close> has built when it has gone through
  the cells \<open>xs\<close>: the rows closed so far and the open row.
\<close>

definition open_row :: "gen \<Rightarrow> drow list" where
  "open_row s = (case cur s of None \<Rightarrow> [] | Some r \<Rightarrow> [r])"

definition gen_inv :: "gridflow \<Rightarrow> int \<Rightarrow> (widget \<times> int) list \<Rightarrow> gen \<Rightarrow> bool" where
  "gen_inv gf maxcol xs s =
     (\<exists>Rd. closed s = layout (v_sep gf) Rd
                        @ (if cur s = None then [] else divider_before (v_sep gf)) \<and>
           (cur s = None \<longrightarrow> Rd = [] \<and> xs = []) \<and>
           concat (map row_cells (Rd @ open_row s)) = xs \<and>
           wrapped maxcol (h_sep gf) (map row_cells (Rd @ open_row s)) \<and>
           (\<forall>r. cur s = Some r \<longrightarrow> used_space s = used_of (h_sep gf) (row_cells r)) \<and>
           positions_ok (Rd @ open_row s))"

text \<open>Every cell of a list has the given width.\<close>

definition cells_of_width :: "int \<Rightarrow> (widget \<times> int) list \<Rightarrow> bool" where
  "cells_of_width a cs = (\<forall>c \<in> set cs. snd c = a)"

section \<open>Frame: clipping, removal of parts, focus\<close>

text \<open>
  Claim C3 as the spec states it: with the focus on the body, when header and footer
  together need at least the available rows, the footer is clipped first and only then the
  header. The code does the opposite. With a header of 3 rows, a footer of 2 rows and 5
  rows available, the header is cut to 2 rows and the footer keeps its 2 rows.
\<close>

theorem frame_clip_header_before_footer:
  "frame_top_bottom tall_frame (80, 5) True = ((2, 2), (3, 2))"
  by (simp add: tall_frame_def Frame_def frame_top_bottom_def part_rows_def flow_widget_def)

text \<open>
  Claim C3, amended: with the focus on the body, header and footer get their natural rows
  when these sum to less than the available rows. Otherwise the header gives way first:
  while the footer needs less than \<open>maxrow - 1\<close> rows it keeps them all and the header gets
  \<open>maxrow - frows - 1\<close> rows; once the footer needs \<open>maxrow - 1\<close> rows or more the header gets
  no row and the footer \<open>max 0 (maxrow - 1)\<close>. The body is never left with a negative number
  of rows.
\<close>

theorem frame_top_bottom_body_focus:
  "focus_part f = ''body'' \<longrightarrow>
     frame_top_bottom f (maxcol, maxrow) focus =
       (let hrows = part_rows (f_header f) maxcol False;
            frows = part_rows (f_footer f) maxcol False
        in if hrows + frows < maxrow then ((hrows, frows), (hrows, frows))
           else if frows < maxrow - 1 then ((maxrow - frows - 1, frows), (hrows, frows))
           else ((0, max 0 (maxrow - 1)), (hrows, frows))) \<and>
     (0 \<le> maxrow \<longrightarrow> 0 \<le> body_rows f (maxcol, maxrow) focus)"
  by (auto simp: frame_top_bottom_def body_rows_def Let_def)

theorem frame_top_bottom_body_focus_witness:
  "focus_part tall_frame = ''body'' \<and> (0::int) \<le> 5 \<and>
   frame_top_bottom tall_frame (80, 5) True = ((2, 2), (3, 2)) \<and>
   0 \<le> body_rows tall_frame (80, 5) True"
  using frame_top_bottom_body_focus [of tall_frame 80 5 True]
  by (simp add: tall_frame_def Frame_def part_rows_def flow_widget_def)

lemma header_set_None [simp]:
  "f_header (header_set f None) = None"
  "f_footer (header_set f None) = f_footer f"
  "f_body (header_set f None) = f_body f"
  by (simp_all add: header_set_def Let_def)

text \<open>
  Claim C8: deleting the key \<^verbatim>\<open>'header'\<close> from the contents of a frame that has a header
  succeeds, and afterwards \<^verbatim>\<open>keys()\<close> holds \<^verbatim>\<open>'body'\<close> and not \<^verbatim>\<open>'header'\<close>; in a frame without
  a header, setting \<^verbatim>\<open>focus_position\<close> to \<^verbatim>\<open>'header'\<close> raises \<^verbatim>\<open>IndexError\<close>, the frame staying
  as it was.
\<close>

theorem frame_header_removal:
  "(f_header f \<noteq> None \<longrightarrow>
      (\<exists>f'. frame_contents_delitem f ''header'' = Inr f' \<and>
            ''header'' \<notin> set (contents_keys f') \<and> ''body'' \<in> set (contents_keys f'))) \<and>
   (f_header f = None \<longrightarrow> frame_focus_position_set f ''header'' = Inl IndexError)"
  by (simp add: frame_contents_delitem_def frame_focus_position_set_def contents_keys_def truth_def)

theorem frame_header_removal_witness:
  "f_header tall_frame \<noteq> None \<and>
   (\<exists>f'. frame_contents_delitem tall_frame ''header'' = Inr f' \<and>
         ''header'' \<notin> set (contents_keys f') \<and> ''body'' \<in> set (contents_keys f')) \<and>
   f_header (header_set tall_frame None) = None \<and>
   frame_focus_position_set (header_set tall_frame None) ''header'' = Inl IndexError"
  using frame_header_removal [of tall_frame] frame_header_removal [of "header_set tall_frame None"]
  by (simp add: tall_frame_def Frame_def)








section \<open>Overlay: the two slots and the fixed focus\<close>

text \<open>
  Writing slot 0 with options other than the constant raises \<^verbatim>\<open>OverlayError\<close>; the
  overlay stays as it was.
\<close>

lemma overlay_bottom_options_fixed:
  "value_options \<noteq> DEFAULT_BOTTOM_OPTIONS \<Longrightarrow>
     overlay_contents_setitem D ov 0 (Entry value_w value_options) = Inl OverlayError"
  by (simp add: overlay_contents_setitem_def)

text \<open>
  Writing slot 0 with the constant stores the widget as the bottom widget; a write to
  slot 1 that succeeds leaves both widgets as they were, whatever the normalisers are.
\<close>

lemma overlay_setitem_bottom_stores_widget:
  "overlay_contents_setitem D ov 0 (Entry value_w DEFAULT_BOTTOM_OPTIONS)
     = Inr (ov\<lparr>bottom_w := value_w\<rparr>)"
  by (simp add: overlay_contents_setitem_def)

lemma overlay_setitem_top_keeps_widget:
  "overlay_contents_setitem D ov 1 v = Inr ov' \<Longrightarrow>
     top_w ov' = top_w ov \<and> bottom_w ov' = bottom_w ov"
  by (auto simp: overlay_contents_setitem_def
      split: entry.splits option.splits sum.splits if_splits)

text \<open>
  Claim C4 at a concrete overlay: \<^verbatim>\<open>contents[1] = (w7, options)\<close> with a well-formed
  tuple of 14 options succeeds, and reading \<^verbatim>\<open>contents[1]\<close> afterwards returns those
  options with the top widget the overlay had before, widget 1, not the widget written,
  widget 7.
\<close>

theorem overlay_top_write_loses_widget:
  "\<exists>ov'. overlay_contents_setitem plain_decoration example_overlay 1
            (Entry (flow_widget 7 1) centred_options) = Inr ov' \<and>
         overlay_contents_getitem ov' 1 = Inr (flow_widget 1 1, centred_options) \<and>
         wid (flow_widget 1 1) \<noteq> wid (flow_widget 7 1)"
  by (simp add: overlay_contents_setitem_def overlay_contents_getitem_def plain_decoration_def
      example_overlay_def centred_options_def flow_widget_def)

text \<open>
  Claim C5: the focus of an overlay is its top widget and its focus position is 1;
  setting the focus position to anything but 1 raises \<^verbatim>\<open>IndexError\<close>, and setting it to 1
  returns with the overlay unchanged.
\<close>

theorem overlay_fixed_focus:
  "overlay_focus ov = top_w ov \<and> overlay_focus_position ov = 1 \<and>
   (position \<noteq> 1 \<longrightarrow> overlay_focus_position_set ov position = Inl IndexError) \<and>
   overlay_focus_position_set ov 1 = Inr ov"
  by (simp add: overlay_focus_def overlay_focus_position_def overlay_focus_position_set_def)

theorem overlay_fixed_focus_witness:
  "(0::int) \<noteq> 1 \<and> overlay_focus_position_set example_overlay 0 = Inl IndexError \<and>
   overlay_focus example_overlay = top_w example_overlay \<and>
   overlay_focus_position_set example_overlay 1 = Inr example_overlay"
  using overlay_fixed_focus [of example_overlay 0] by simp

section \<open>Focus position of an empty container\<close>

text \<open>
  Claim C6: reading \<^verbatim>\<open>focus_position\<close> of a Pile, a Columns or a GridFlow without contents
  raises \<^verbatim>\<open>IndexError\<close>, and after one child is appended to the empty container the focus
  position is 0.
\<close>

theorem empty_container_focus:
  "(items (p_contents p) = [] \<longrightarrow>
      pile_focus_position p = Inl IndexError \<and>
      pile_focus_position (pile_append p pitem) = Inr 0) \<and>
   (items (c_contents c) = [] \<longrightarrow>
      columns_focus_position c = Inl IndexError \<and>
      columns_focus_position (columns_append c citem) = Inr 0) \<and>
   (items (g_contents gf) = [] \<longrightarrow>
      gridflow_focus_position gf = Inl IndexError \<and>
      gridflow_focus_position (gridflow_append gf gitem) = Inr 0)"
  by (simp add: pile_focus_position_def pile_append_def columns_focus_position_def
      columns_append_def gridflow_focus_position_def gridflow_append_def mfl_append_def)

theorem empty_container_focus_witness:
  "items (p_contents Pile_empty) = [] \<and>
   pile_focus_position Pile_empty = Inl IndexError \<and>
   pile_focus_position (pile_append Pile_empty (flow_widget 0 1, Weight 1)) = Inr 0 \<and>
   items (c_contents (columns_of [] 0 1 0)) = [] \<and>
   columns_focus_position (columns_of [] 0 1 0) = Inl IndexError \<and>
   columns_focus_position
     (columns_append (columns_of [] 0 1 0) (flow_widget 0 1, Weight 1, False)) = Inr 0 \<and>
   items (g_contents (GridFlow [] 4 1 1)) = [] \<and>
   gridflow_focus_position (GridFlow [] 4 1 1) = Inl IndexError \<and>
   gridflow_focus_position (gridflow_append (GridFlow [] 4 1 1) (flow_widget 0 1, 4)) = Inr 0"
  using empty_container_focus [of Pile_empty "(flow_widget 0 1, Weight 1)"
          "columns_of [] 0 1 0" "(flow_widget 0 1, Weight 1, False)"
          "GridFlow [] 4 1 1" "(flow_widget 0 1, 4)"]
  by (simp add: Pile_empty_def mfl_empty_def columns_of_def GridFlow_def get_display_widget_def)

section \<open>The box-model solver\<close>
































text \<open>
  Two more inputs at which the claim as stated fails: a pile without a weighted entry
  raises \<^verbatim>\<open>PileError\<close>, and the widths of columns leave room for the dividers between
  them, so three columns of equal weight in a width of 10 with one divider character
  receive 3, 3 and 2.
\<close>

lemma pile_without_weight_raises:
  "get_item_rows (pile_of [Given 2]) (80, Some 5) False = Inl PileError"
  by (simp add: get_item_rows_def pile_of_def)

lemma columns_leave_room_for_dividers:
  "calc_column_widths (columns_of [Weight 1, Weight 1, Weight 1] 1 1 0) 10 False = Inr [3, 3, 2]"
  by code_simp



section \<open>Columns: which columns are given up\<close>















text \<open>
  With the focus on the last column the same columns are given up from the head.
\<close>

lemma eviction_from_head_before_focus:
  "map_sum id fst (column_widths (columns_of [Given 2, Given 5, Given 5] 0 1 2) (7, None) False)
     = Inr [0, 0, 5]"
  by code_simp



section \<open>GridFlow: rows of the display widget\<close>

lemma gen_inv_init: "gen_inv gf maxcol [] gen_init"
  by (auto simp: gen_inv_def gen_init_def layout_def open_row_def wrapped_def positions_ok_def
      intro!: exI [of _ "[]"])

lemma gen_loop_snoc:
  "gen_loop gf maxcol (xs @ [x]) = gen_step gf maxcol (gen_loop gf maxcol xs) (length xs, x)"
  by (simp add: gen_loop_def enumerate_append_eq)

lemma used_of_snoc: "used_of hs (cs @ [(w, a)]) = used_of hs cs + a + hs"
  by (simp add: used_of_def algebra_simps)

lemma stays_single: "stays maxcol hs [x]"
  by (simp add: stays_def)

lemma stays_snoc:
  "cs \<noteq> [] \<Longrightarrow> stays maxcol hs cs \<Longrightarrow> \<not> maxcol - used_of hs cs < a \<Longrightarrow>
     stays maxcol hs (cs @ [(w, a)])"
  unfolding stays_def
proof
  fix t assume a: "cs \<noteq> []" "\<forall>t\<in>{1..<length cs}. \<not> maxcol - used_of hs (take t cs) < snd (cs ! t)"
    "\<not> maxcol - used_of hs cs < a" and t: "t \<in> {1..<length (cs @ [(w, a)])}"
  show "\<not> maxcol - used_of hs (take t (cs @ [(w, a)])) < snd ((cs @ [(w, a)]) ! t)"
  proof (cases "t < length cs")
    case True
    then show ?thesis using a(2) t by (simp add: nth_append)
  next
    case False
    then have "t = length cs" using t by simp
    then show ?thesis using a(3) by simp
  qed
qed


lemma gen_step_new:
  assumes "starts_row maxcol s a"
  shows "closed (gen_step gf maxcol s (i, w, a)) = p_contents_of s @ divider_before (v_sep gf) \<and>
         (\<exists>r'. cur (gen_step gf maxcol s (i, w, a)) = Some r' \<and> row_cells r' = [(w, a)] \<and>
               first_position r' = int i) \<and>
         used_space (gen_step gf maxcol s (i, w, a)) = used_of (h_sep gf) [(w, a)]"
  using assms
  by (simp add: gen_step_def Let_def fresh_row_def mfl_append_def mfl_set_focus_def
      mfl_empty_def row_cells_def divider_before_def split: option.splits)

lemma gen_step_same:
  assumes "\<not> starts_row maxcol s a" "cur s = Some r"
  shows "closed (gen_step gf maxcol s (i, w, a)) = closed s \<and>
         (\<exists>r'. cur (gen_step gf maxcol s (i, w, a)) = Some r' \<and>
               row_cells r' = row_cells r @ [(w, a)] \<and>
               first_position r' = first_position r) \<and>
         used_space (gen_step gf maxcol s (i, w, a)) = used_of (h_sep gf) (row_cells r @ [(w, a)])"
  using assms
  by (simp add: gen_step_def Let_def mfl_append_def mfl_set_focus_def row_cells_def)

lemma layout_snoc: "layout vs (Rd @ [r]) = layout vs Rd @ divider_before vs @ [PadItem r]"
  by (simp add: layout_def)

lemma positions_ok_snoc:
  "positions_ok (Rd @ [r]) \<longleftrightarrow>
     positions_ok Rd \<and> first_position r = int (length (concat (map row_cells Rd)))"
proof
  assume a: "positions_ok (Rd @ [r])"
  have "positions_ok Rd"
    unfolding positions_ok_def
  proof (intro allI impI)
    fix k assume k: "k < length Rd"
    then have "first_position ((Rd @ [r]) ! k) = int (length (concat (map row_cells (take k (Rd @ [r])))))"
      using a by (simp add: positions_ok_def)
    then show "first_position (Rd ! k) = int (length (concat (map row_cells (take k Rd))))"
      using k by (simp add: nth_append)
  qed
  moreover have "first_position r = int (length (concat (map row_cells Rd)))"
    using a [unfolded positions_ok_def, rule_format, of "length Rd"] by simp
  ultimately show "positions_ok Rd \<and> first_position r = int (length (concat (map row_cells Rd)))"
    by simp
next
  assume a: "positions_ok Rd \<and> first_position r = int (length (concat (map row_cells Rd)))"
  show "positions_ok (Rd @ [r])"
    unfolding positions_ok_def
  proof (intro allI impI)
    fix k assume k: "k < length (Rd @ [r])"
    show "first_position ((Rd @ [r]) ! k) = int (length (concat (map row_cells (take k (Rd @ [r])))))"
    proof (cases "k < length Rd")
      case True
      then show ?thesis using a by (simp add: positions_ok_def nth_append)
    next
      case False
      then have "k = length Rd" using k by simp
      then show ?thesis using a by simp
    qed
  qed
qed

lemma wrapped_snoc_new:
  assumes "wrapped maxcol hs (rows @ [cs])" "maxcol - used_of hs cs < a"
  shows "wrapped maxcol hs ((rows @ [cs]) @ [[(w, a)]])"
  using assms
  by (auto simp: wrapped_def stays_single successively_append_iff breaks_def)

lemma wrapped_snoc_same:
  assumes "wrapped maxcol hs (rows @ [cs])" "\<not> maxcol - used_of hs cs < a"
  shows "wrapped maxcol hs (rows @ [cs @ [(w, a)]])"
proof -
  have ne: "cs \<noteq> []" and st: "stays maxcol hs cs" using assms(1) by (auto simp: wrapped_def)
  have "stays maxcol hs (cs @ [(w, a)])" using ne st assms(2) by (rule stays_snoc)
  moreover have "successively (breaks maxcol hs) (rows @ [cs @ [(w, a)]])"
    using assms(1) ne by (auto simp: wrapped_def successively_append_iff breaks_def)
  ultimately show ?thesis using assms(1) by (auto simp: wrapped_def)
qed

lemma gen_inv_step:
  assumes inv: "gen_inv gf maxcol xs s"
  shows "gen_inv gf maxcol (xs @ [(w, a)]) (gen_step gf maxcol s (length xs, w, a))"
proof -
  let ?s' = "gen_step gf maxcol s (length xs, w, a)"
  let ?vs = "v_sep gf"
  let ?hs = "h_sep gf"
  from inv obtain Rd where Rd:
    "closed s = layout ?vs Rd @ (if cur s = None then [] else divider_before ?vs)"
    "cur s = None \<longrightarrow> Rd = [] \<and> xs = []"
    "concat (map row_cells (Rd @ open_row s)) = xs"
    "wrapped maxcol ?hs (map row_cells (Rd @ open_row s))"
    "\<forall>r. cur s = Some r \<longrightarrow> used_space s = used_of ?hs (row_cells r)"
    "positions_ok (Rd @ open_row s)"
    unfolding gen_inv_def by (elim exE conjE) (rule that)
  show ?thesis
  proof (cases "cur s")
    case None
    then have sr: "starts_row maxcol s a" by (simp add: starts_row_def)
    from gen_step_new [OF sr, of gf "length xs" w] obtain r' where s':
      "closed ?s' = p_contents_of s @ divider_before ?vs"
      "cur ?s' = Some r'" "row_cells r' = [(w, a)]" "first_position r' = int (length xs)"
      "used_space ?s' = used_of ?hs [(w, a)]" by blast
    have e: "Rd = []" "xs = []" using Rd(2) None by simp_all
    have c: "closed ?s' = layout ?vs [] @ divider_before ?vs"
      using s'(1) None Rd(1) e by (simp add: p_contents_of_def layout_def)
    show ?thesis
      unfolding gen_inv_def
      using c s'(2,3,4,5) e
      by (intro exI [of _ "[]"])
         (simp add: open_row_def wrapped_def stays_single positions_ok_def)
  next
    case (Some r)
    have us: "used_space s = used_of ?hs (row_cells r)" using Rd(5) Some by simp
    have orow: "open_row s = [r]" using Some by (simp add: open_row_def)
    have cl: "closed s = layout ?vs Rd @ divider_before ?vs" using Rd(1) Some by simp
    have cc: "concat (map row_cells Rd) @ row_cells r = xs" using Rd(3) orow by simp
    have wr: "wrapped maxcol ?hs (map row_cells Rd @ [row_cells r])" using Rd(4) orow by simp
    have po: "positions_ok Rd" "first_position r = int (length (concat (map row_cells Rd)))"
      using Rd(6) orow by (simp_all add: positions_ok_snoc)
    show ?thesis
    proof (cases "starts_row maxcol s a")
      case True
      then have lt: "maxcol - used_of ?hs (row_cells r) < a"
        using Some us by (simp add: starts_row_def)
      from gen_step_new [OF True, of gf "length xs" w] obtain r' where s':
        "closed ?s' = p_contents_of s @ divider_before ?vs"
        "cur ?s' = Some r'" "row_cells r' = [(w, a)]" "first_position r' = int (length xs)"
        "used_space ?s' = used_of ?hs [(w, a)]" by blast
      have c: "closed ?s' = layout ?vs (Rd @ [r]) @ divider_before ?vs"
        using s'(1) cl Some by (simp add: p_contents_of_def layout_snoc)
      have w': "wrapped maxcol ?hs (map row_cells ((Rd @ [r]) @ [r']))"
        using wrapped_snoc_new [OF wr lt, of w] s'(3) by simp
      have p1: "positions_ok (Rd @ [r])" using po by (simp add: positions_ok_snoc)
      have "first_position r' = int (length (concat (map row_cells (Rd @ [r]))))"
        using s'(4) cc by simp
      with p1 have p': "positions_ok ((Rd @ [r]) @ [r'])"
        by (simp only: positions_ok_snoc)
      have cc': "concat (map row_cells ((Rd @ [r]) @ [r'])) = xs @ [(w, a)]"
        using cc s'(3) by simp
      show ?thesis
        unfolding gen_inv_def
        using c s'(2,5) s'(3) cc' w' p'
        by (intro exI [of _ "Rd @ [r]"]) (simp add: open_row_def)
    next
      case False
      then have nlt: "\<not> maxcol - used_of ?hs (row_cells r) < a"
        using Some us by (simp add: starts_row_def)
      from gen_step_same [OF False Some, of gf "length xs" w] obtain r' where s':
        "closed ?s' = closed s" "cur ?s' = Some r'" "row_cells r' = row_cells r @ [(w, a)]"
        "first_position r' = first_position r"
        "used_space ?s' = used_of ?hs (row_cells r @ [(w, a)])" by blast
      have w': "wrapped maxcol ?hs (map row_cells (Rd @ [r']))"
        using wrapped_snoc_same [OF wr nlt, of w] s'(3) by simp
      have p': "positions_ok (Rd @ [r'])" using po s'(4) by (simp add: positions_ok_snoc)
      have cc': "concat (map row_cells (Rd @ [r'])) = xs @ [(w, a)]" using cc s'(3) by simp
      show ?thesis
        unfolding gen_inv_def
        using s'(1,2,3,5) cl cc' w' p'
        by (intro exI [of _ Rd]) (simp add: open_row_def)
    qed
  qed
qed

lemma gen_inv_loop: "gen_inv gf maxcol xs (gen_loop gf maxcol xs)"
proof (induction xs rule: rev_induct)
  case Nil
  then show ?case by (simp add: gen_loop_def gen_inv_init)
next
  case (snoc x xs)
  obtain w a where x: "x = (w, a)" by (cases x)
  show ?case using gen_inv_step [OF snoc, of w a] x by (simp add: gen_loop_snoc)
qed


lemma rows_of_items_layout: "rows_of_items (layout vs rows) = rows"
proof (cases "vs = 0")
  case True
  then show ?thesis by (induction rows) (simp_all add: layout_def divider_before_def)
next
  case False
  then show ?thesis by (induction rows) (simp_all add: layout_def divider_before_def)
qed

lemma rows_of_items_drop_layout:
  "rows_of_items (drop (if vs \<noteq> 0 then 1 else 0) (layout vs rows)) = rows"
proof (cases rows)
  case Nil
  then show ?thesis by (simp add: layout_def)
next
  case (Cons r rs)
  have "rows_of_items (layout vs rs) = rs" by (rule rows_of_items_layout)
  then show ?thesis using Cons by (simp add: layout_def divider_before_def)
qed

lemma generate_display_widget_shape:
  assumes ne: "items (g_contents gf) \<noteq> []"
  shows "\<exists>rows. concat (map row_cells rows) = items (g_contents gf) \<and>
           wrapped maxcol (h_sep gf) (map row_cells rows) \<and> positions_ok rows \<and>
           generate_display_widget gf maxcol =
             PileW (if v_sep gf > 1 then v_sep gf - 1 else 0)
               (if v_sep gf \<noteq> 0
                then mfl_del_first \<lparr>items = layout (v_sep gf) rows,
                                     mfl_focus = p_focus (gen_loop gf maxcol (items (g_contents gf)))\<rparr>
                else \<lparr>items = layout (v_sep gf) rows,
                       mfl_focus = p_focus (gen_loop gf maxcol (items (g_contents gf)))\<rparr>)"
proof -
  let ?xs = "items (g_contents gf)"
  let ?s = "gen_loop gf maxcol ?xs"
  from gen_inv_loop [of gf maxcol ?xs] obtain Rd where Rd:
    "closed ?s = layout (v_sep gf) Rd @ (if cur ?s = None then [] else divider_before (v_sep gf))"
    "cur ?s = None \<longrightarrow> Rd = [] \<and> ?xs = []"
    "concat (map row_cells (Rd @ open_row ?s)) = ?xs"
    "wrapped maxcol (h_sep gf) (map row_cells (Rd @ open_row ?s))"
    "positions_ok (Rd @ open_row ?s)"
    unfolding gen_inv_def by (elim exE conjE) (rule that)
  from Rd(2) ne obtain r where r: "cur ?s = Some r" by (cases "cur ?s") auto
  have pc: "p_contents_of ?s = layout (v_sep gf) (Rd @ [r])"
    using Rd(1) r by (simp add: p_contents_of_def layout_snoc)
  have orow: "open_row ?s = [r]" using r by (simp add: open_row_def)
  show ?thesis
    using Rd(3,4,5) orow pc ne
    by (intro exI [of _ "Rd @ [r]"]) (simp add: generate_display_widget_def Let_def)
qed

lemma generate_display_widget_rows:
  assumes ne: "items (g_contents gf) \<noteq> []"
  shows "concat (map row_cells (display_rows (generate_display_widget gf maxcol)))
           = items (g_contents gf) \<and>
         wrapped maxcol (h_sep gf)
           (map row_cells (display_rows (generate_display_widget gf maxcol))) \<and>
         positions_ok (display_rows (generate_display_widget gf maxcol)) \<and>
         display_items (generate_display_widget gf maxcol)
           = drop (if v_sep gf \<noteq> 0 then 1 else 0)
               (layout (v_sep gf) (display_rows (generate_display_widget gf maxcol))) \<and>
         display_top (generate_display_widget gf maxcol)
           = (if v_sep gf > 1 then v_sep gf - 1 else 0)"
proof -
  let ?d = "generate_display_widget gf maxcol"
  from generate_display_widget_shape [OF ne, of maxcol] obtain rows where rows:
    "concat (map row_cells rows) = items (g_contents gf)"
    "wrapped maxcol (h_sep gf) (map row_cells rows)" "positions_ok rows"
    "?d = PileW (if v_sep gf > 1 then v_sep gf - 1 else 0)
               (if v_sep gf \<noteq> 0
                then mfl_del_first \<lparr>items = layout (v_sep gf) rows,
                                     mfl_focus = p_focus (gen_loop gf maxcol (items (g_contents gf)))\<rparr>
                else \<lparr>items = layout (v_sep gf) rows,
                       mfl_focus = p_focus (gen_loop gf maxcol (items (g_contents gf)))\<rparr>)"
    by blast
  have di: "display_items ?d = drop (if v_sep gf \<noteq> 0 then 1 else 0) (layout (v_sep gf) rows)"
    unfolding rows(4) by (simp add: display_items_def mfl_del_first_def)
  then have dr: "display_rows ?d = rows"
    by (simp only: display_rows_def rows_of_items_drop_layout)
  have dt: "display_top ?d = (if v_sep gf > 1 then v_sep gf - 1 else 0)"
    unfolding rows(4) by (simp add: display_top_def)
  show ?thesis using rows(1,2,3) di dr dt by simp
qed

lemma wrapped_fours_first_row:
  assumes w: "wrapped 9 1 (r0 # rs)" and four: "\<forall>c \<in> set (concat (r0 # rs)). snd c = 4"
    and two: "2 \<le> length (concat (r0 # rs))"
  shows "length r0 = 2"
proof -
  have ne: "r0 \<noteq> []" and st: "stays 9 1 r0" using w by (auto simp: wrapped_def)
  have le: "length r0 \<le> 2"
  proof (rule ccontr)
    assume "\<not> length r0 \<le> 2"
    then have l: "2 < length r0" by simp
    obtain a r1 where r0: "r0 = a # r1" using l by (cases r0) auto
    obtain b r2 where r1: "r1 = b # r2" using l r0 by (cases r1) auto
    obtain c r3 where r2: "r2 = c # r3" using l r0 r1 by (cases r2) auto
    have "2 \<in> {1 ..< length r0}" using l by simp
    then have "\<not> 9 - used_of 1 (take 2 r0) < snd (r0 ! 2)"
      using st unfolding stays_def by blast
    moreover have "snd a = 4" "snd b = 4" "snd c = 4" using four r0 r1 r2 by simp_all
    moreover have "take 2 r0 = [a, b]" "r0 ! 2 = c" using r0 r1 r2 by (simp_all add: numeral_2_eq_2)
    ultimately have "\<not> 9 - used_of 1 [a, b] < (4::int)" by simp
    moreover have "used_of 1 [a, b] = 10" using \<open>snd a = 4\<close> \<open>snd b = 4\<close> by (simp add: used_of_def)
    ultimately show False by simp
  qed
  have ge: "2 \<le> length r0"
  proof (rule ccontr)
    assume "\<not> 2 \<le> length r0"
    then have "length r0 < 2" by simp
    then obtain c where r0: "r0 = [c]" using ne by (cases r0; cases "tl r0") auto
    have c4: "snd c = 4" using four r0 by simp
    show False
    proof (cases rs)
      case Nil
      then show ?thesis using two r0 by simp
    next
      case (Cons r1 rs')
      then have "breaks 9 1 r0 r1" and "r1 \<noteq> []" using w by (auto simp: wrapped_def)
      moreover have "snd (hd r1) = 4" using four Cons \<open>r1 \<noteq> []\<close> by (cases r1) auto
      ultimately show ?thesis using r0 c4 by (simp add: breaks_def used_of_def)
    qed
  qed
  from le ge show ?thesis by simp
qed


text \<open>
  Claim C7: the display widget of a GridFlow with cells holds every cell once and in
  order, in rows that are wrapped: a cell starts a new row exactly when it is the first
  cell or the space used by its row, dividers included, plus its width exceeds the
  available width. Every row knows the position of its first cell; between two rows
  lies one divider when \<^verbatim>\<open>v_sep\<close> is not zero and nothing otherwise, and for a positive
  \<^verbatim>\<open>v_sep\<close> the divider is \<^verbatim>\<open>v_sep\<close> rows high. With cells of width 4, \<^verbatim>\<open>h_sep = 1\<close> and an
  available width of 9, the first row holds exactly the first two cells.
\<close>

theorem gridflow_row_wrapping:
  "items (g_contents gf) \<noteq> [] \<longrightarrow>
     concat (map row_cells (display_rows (generate_display_widget gf maxcol)))
       = items (g_contents gf) \<and>
     wrapped maxcol (h_sep gf)
       (map row_cells (display_rows (generate_display_widget gf maxcol))) \<and>
     positions_ok (display_rows (generate_display_widget gf maxcol)) \<and>
     display_items (generate_display_widget gf maxcol)
       = drop (if v_sep gf \<noteq> 0 then 1 else 0)
           (layout (v_sep gf) (display_rows (generate_display_widget gf maxcol))) \<and>
     (0 < v_sep gf \<longrightarrow>
        divider_rows (display_top (generate_display_widget gf maxcol)) = v_sep gf) \<and>
     (h_sep gf = 1 \<and> maxcol = 9 \<and> cells_of_width 4 (items (g_contents gf)) \<and>
      2 \<le> length (items (g_contents gf)) \<longrightarrow>
        row_cells (hd (display_rows (generate_display_widget gf maxcol)))
          = take 2 (items (g_contents gf)))"
proof
  assume ne: "items (g_contents gf) \<noteq> []"
  let ?d = "generate_display_widget gf maxcol"
  let ?xs = "items (g_contents gf)"
  note sh = generate_display_widget_rows [OF ne, of maxcol]
  have top: "0 < v_sep gf \<longrightarrow> divider_rows (display_top ?d) = v_sep gf"
    using sh by (simp add: divider_rows_def)
  have first: "row_cells (hd (display_rows ?d)) = take 2 ?xs"
    if h: "h_sep gf = 1 \<and> maxcol = 9 \<and> cells_of_width 4 ?xs \<and> 2 \<le> length ?xs"
  proof -
    from sh ne obtain r0 rs where rows: "display_rows ?d = r0 # rs"
      by (cases "display_rows ?d") auto
    have cc: "concat (row_cells r0 # map row_cells rs) = ?xs" using sh rows by simp
    have w: "wrapped 9 1 (row_cells r0 # map row_cells rs)" using sh rows h by simp
    have four: "\<forall>c \<in> set (concat (row_cells r0 # map row_cells rs)). snd c = 4"
      using h unfolding cc by (simp add: cells_of_width_def)
    have two: "2 \<le> length (concat (row_cells r0 # map row_cells rs))"
      using h unfolding cc by simp
    have "length (row_cells r0) = 2" using w four two by (rule wrapped_fours_first_row)
    moreover have "?xs = row_cells r0 @ concat (map row_cells rs)" using cc by simp
    ultimately have "take 2 ?xs = row_cells r0" by simp
    then show ?thesis using rows by simp
  qed
  show "concat (map row_cells (display_rows ?d)) = ?xs \<and>
     wrapped maxcol (h_sep gf) (map row_cells (display_rows ?d)) \<and>
     positions_ok (display_rows ?d) \<and>
     display_items ?d
       = drop (if v_sep gf \<noteq> 0 then 1 else 0) (layout (v_sep gf) (display_rows ?d)) \<and>
     (0 < v_sep gf \<longrightarrow> divider_rows (display_top ?d) = v_sep gf) \<and>
     (h_sep gf = 1 \<and> maxcol = 9 \<and> cells_of_width 4 ?xs \<and> 2 \<le> length ?xs \<longrightarrow>
        row_cells (hd (display_rows ?d)) = take 2 ?xs)"
    using sh top first by blast
qed

lemma three_cells_in_two_rows:
  "map (\<lambda>r. map snd (row_cells r))
     (display_rows (generate_display_widget
        (GridFlow [flow_widget 0 1, flow_widget 1 1, flow_widget 2 1] 4 1 1) 9))
     = [[4, 4], [4]]"
  by code_simp

theorem gridflow_row_wrapping_witness:
  "items (g_contents (GridFlow [flow_widget 0 1, flow_widget 1 1, flow_widget 2 1] 4 1 1)) \<noteq> [] \<and>
   0 < v_sep (GridFlow [flow_widget 0 1, flow_widget 1 1, flow_widget 2 1] 4 1 1) \<and>
   h_sep (GridFlow [flow_widget 0 1, flow_widget 1 1, flow_widget 2 1] 4 1 1) = 1 \<and>
   cells_of_width 4
     (items (g_contents (GridFlow [flow_widget 0 1, flow_widget 1 1, flow_widget 2 1] 4 1 1))) \<and>
   2 \<le> length (items (g_contents (GridFlow [flow_widget 0 1, flow_widget 1 1, flow_widget 2 1] 4 1 1))) \<and>
   row_cells (hd (display_rows (generate_display_widget
       (GridFlow [flow_widget 0 1, flow_widget 1 1, flow_widget 2 1] 4 1 1) 9)))
     = [(flow_widget 0 1, 4), (flow_widget 1 1, 4)] \<and>
   divider_rows (display_top (generate_display_widget
       (GridFlow [flow_widget 0 1, flow_widget 1 1, flow_widget 2 1] 4 1 1) 9)) = 1 \<and>
   map (\<lambda>r. map snd (row_cells r))
     (display_rows (generate_display_widget
        (GridFlow [flow_widget 0 1, flow_widget 1 1, flow_widget 2 1] 4 1 1) 9))
     = [[4, 4], [4]]"
proof -
  let ?gf = "GridFlow [flow_widget 0 1, flow_widget 1 1, flow_widget 2 1] 4 1 1"
  have gf: "items (g_contents ?gf) = [(flow_widget 0 1, 4), (flow_widget 1 1, 4), (flow_widget 2 1, 4)]"
    "v_sep ?gf = 1" "h_sep ?gf = 1"
    by (simp_all add: GridFlow_def get_display_widget_def)
  have ne: "items (g_contents ?gf) \<noteq> []" unfolding gf by simp
  have w4: "cells_of_width 4 (items (g_contents ?gf))"
    unfolding gf cells_of_width_def by simp
  have len: "2 \<le> length (items (g_contents ?gf))" unfolding gf by simp
  have tk: "take 2 (items (g_contents ?gf)) = [(flow_widget 0 1, 4), (flow_widget 1 1, 4)]"
    unfolding gf by simp
  note inst = gridflow_row_wrapping [of ?gf 9, rule_format, OF ne]
  have top: "divider_rows (display_top (generate_display_widget ?gf 9)) = 1"
    using inst gf(2) by simp
  have first: "row_cells (hd (display_rows (generate_display_widget ?gf 9)))
      = [(flow_widget 0 1, 4), (flow_widget 1 1, 4)]"
    using inst gf(3) w4 len unfolding tk [symmetric] by blast
  show ?thesis
    using ne gf(2) gf(3) w4 len first top three_cells_in_two_rows by simp
qed

section \<open>GridFlow: the answer of \<^verbatim>\<open>mouse_event\<close>\<close>

text \<open>Whenever \<^verbatim>\<open>mouse_event\<close> returns, it returns \<^verbatim>\<open>True\<close>, whatever the display widget answered.\<close>

lemma mouse_event_returns_true:
  "mouse_event wrap gf maxcol ev = Inr (handled, gf') \<Longrightarrow> handled"
  by (auto simp: mouse_event_def Let_def split: sum.splits prod.splits)

text \<open>It raises what the display widget raises.\<close>

lemma mouse_event_wrap_raises:
  "wrap (get_display_widget gf maxcol) maxcol ev = Inl e \<Longrightarrow>
     mouse_event wrap gf maxcol ev = Inl e"
  by (simp add: mouse_event_def Let_def)

text \<open>
  With a leaf cell wider than the available width, an event that the display widget does
  not handle is answered with \<^verbatim>\<open>True\<close>.
\<close>

lemma mouse_event_leaf_cell:
  "map_sum id fst (mouse_event ignoring_wrap leaf_grid 5 far_click) = Inr True"
  by code_simp

text \<open>
  Claim C10 at a concrete GridFlow: one cell of width 10 that is a container with focus
  position 1, and an event at available width 5 that the display widget does not handle.
  The display is regenerated with the cell in place of the row's \<^verbatim>\<open>Columns\<close>, so
  \<^verbatim>\<open>_set_focus_from_display_widget\<close> reads the focus position of the cell, 1, adds it to the
  first position of the row, 0, and assigns the sum to the focus position of a GridFlow
  with one cell: \<^verbatim>\<open>mouse_event\<close> raises \<^verbatim>\<open>IndexError\<close> and returns nothing.
\<close>

theorem gridflow_mouse_event_raises:
  "mouse_event ignoring_wrap container_grid 5 far_click = Inl IndexError"
proof -
  have "map_sum id fst (mouse_event ignoring_wrap container_grid 5 far_click) = Inl IndexError"
    by code_simp
  then show ?thesis
    by (cases "mouse_event ignoring_wrap container_grid 5 far_click") simp_all
qed

end
